theory Spec2Isabelle
  imports Complex_Main
begin

section \<open>JavaScript values\<close>

text \<open>
  A JavaScript string is a sequence of UTF-16 code units; a code unit is modelled as a
  natural number. \<open>ascii\<close> turns an ASCII literal of the source into such a sequence.
\<close>

type_synonym jsstring = "nat list"

definition ascii :: "string \<Rightarrow> jsstring" where
  "ascii s = map of_char s"

text \<open>
  The values a provider can hand back: what \<open>response.json()\<close> produces, plus
  \<open>undefined\<close>. Numbers are the values of the parsed doubles; an object is the list of
  its own properties.
\<close>

datatype jsval =
    JUndefined
  | JNull
  | JBool bool
  | JNum rat
  | JStr jsstring
  | JArr "jsval list"
  | JObj "(jsstring \<times> jsval) list"

text \<open>The errors that can be thrown in the modelled code, with the \<open>name\<close> each carries.\<close>

datatype js_error =
    HttpError nat                \<comment> \<open>\<open>new Error(`HTTP ${response.status}`)\<close>\<close>
  | AbortError                   \<comment> \<open>what \<open>fetch\<close> rejects with after \<open>controller.abort()\<close>\<close>
  | TypeError                    \<comment> \<open>reading a property of null, calling a non-function\<close>
  | Thrown "jsstring option"     \<comment> \<open>any other thrown value, with its \<open>name\<close> if it has one\<close>

fun error_name :: "js_error \<Rightarrow> jsstring option" where
  "error_name (HttpError n) = Some (ascii ''Error'')"
| "error_name AbortError = Some (ascii ''AbortError'')"
| "error_name TypeError = Some (ascii ''TypeError'')"
| "error_name (Thrown n) = n"

text \<open>The outcome of awaiting a call to code outside the modelled file.\<close>

datatype 'a outcome = Throws js_error | Returns 'a

text \<open>Truthiness, as \<open>!\<close>, \<open>||\<close>, \<open>&&\<close> and \<open>if\<close> read a value.\<close>

fun truthy :: "jsval \<Rightarrow> bool" where
  "truthy JUndefined = False"
| "truthy JNull = False"
| "truthy (JBool b) = b"
| "truthy (JNum n) = (n \<noteq> 0)"
| "truthy (JStr s) = (s \<noteq> [])"
| "truthy (JArr xs) = True"
| "truthy (JObj kvs) = True"

text \<open>\<open>a || b\<close> on values that are already evaluated.\<close>

definition js_or :: "jsval \<Rightarrow> jsval \<Rightarrow> jsval" where
  "js_or a b = (if truthy a then a else b)"

text \<open>
  \<open>v.k\<close> for a \<open>v\<close> that is neither null nor undefined and a \<open>k\<close> that is not a
  built-in property: an object's own property, \<open>undefined\<close> otherwise.
\<close>

definition get_prop :: "jsval \<Rightarrow> jsstring \<Rightarrow> jsval" where
  "get_prop v k =
     (case v of
        JObj kvs \<Rightarrow> (case map_of kvs k of Some x \<Rightarrow> x | None \<Rightarrow> JUndefined)
      | _ \<Rightarrow> JUndefined)"

fun nullish :: "jsval \<Rightarrow> bool" where
  "nullish JUndefined = True"
| "nullish JNull = True"
| "nullish _ = False"

text \<open>A field of the manager that holds a string or null: its truthiness and its value.\<close>

fun truthy_str :: "jsstring option \<Rightarrow> bool" where
  "truthy_str None = False"
| "truthy_str (Some s) = (s \<noteq> [])"

fun js_of :: "jsstring option \<Rightarrow> jsval" where
  "js_of None = JNull"
| "js_of (Some s) = JStr s"

section \<open>Configuration\<close>

definition MAX_RETRIES :: int where "MAX_RETRIES = 3"
definition RETRY_DELAY :: rat where "RETRY_DELAY = 1000"
definition RETRY_MULTIPLIER :: rat where "RETRY_MULTIPLIER = 2"
definition REQUEST_TIMEOUT :: int where "REQUEST_TIMEOUT = 10000"
definition CACHE_DURATION :: int where "CACHE_DURATION = 2000"

section \<open>Utility functions\<close>

subsection \<open>generateRandomString\<close>

text \<open>
  \<open>Math.random()\<close> is a source of draws; draw number \<open>i\<close> of a call is \<open>rnd i\<close>.
  \<open>cs[Math.floor(r * cs.length)]\<close> appended to a string: a read outside the string is
  \<open>undefined\<close>, which \<open>+=\<close> appends as the text "undefined".
\<close>

definition pick :: "jsstring \<Rightarrow> rat \<Rightarrow> jsstring" where
  "pick cs r =
     (let k = \<lfloor>r * of_nat (length cs)\<rfloor>
      in if 0 \<le> k \<and> nat k < length cs then [cs ! nat k] else ascii ''undefined'')"

definition letters :: jsstring where
  "letters = ascii ''abcdefghijklmnopqrstuvwxyz''"

definition numbers :: jsstring where
  "numbers = ascii ''0123456789''"

function genLoop :: "(nat \<Rightarrow> rat) \<Rightarrow> jsstring \<Rightarrow> nat \<Rightarrow> nat \<Rightarrow> jsstring \<Rightarrow> jsstring" where
  "genLoop rnd chars i len result =
     (if i < len then genLoop rnd chars (i + 1) len (result @ pick chars (rnd i)) else result)"
  by pat_completeness auto
termination
  by (relation "measure (\<lambda>(rnd, chars, i, len, result). len - i)") auto

declare genLoop.simps [simp del]

definition generateRandomString :: "(nat \<Rightarrow> rat) \<Rightarrow> nat \<Rightarrow> bool \<Rightarrow> jsstring" where
  "generateRandomString rnd len includeNumbers =
     (let chars = (if includeNumbers then letters @ numbers else letters);
          result = [] @ pick letters (rnd 0)
      in genLoop rnd chars 1 len result)"

subsection \<open>fetchWithRetry\<close>

text \<open>
  One attempt of \<open>fetch\<close> under the abort timer: the server answers in time, the request
  is rejected in time, or nothing settles within \<open>REQUEST_TIMEOUT\<close>, the timer calls
  \<open>controller.abort()\<close> and the request is rejected with an \<open>AbortError\<close>.
\<close>

record response =
  status :: nat
  payload :: jsstring

datatype fetch_outcome = Responds response | Rejects js_error | TimesOut

definition ok :: "response \<Rightarrow> bool" where
  "ok r = (200 \<le> status r \<and> status r \<le> 299)"

fun attempt :: "fetch_outcome \<Rightarrow> js_error + response" where
  "attempt (Responds r) = (if \<not> ok r then Inl (HttpError (status r)) else Inr r)"
| "attempt (Rejects e) = Inl e"
| "attempt TimesOut = Inl AbortError"

text \<open>\<open>s.includes(sub)\<close>.\<close>

fun js_includes :: "jsstring \<Rightarrow> jsstring \<Rightarrow> bool" where
  "js_includes [] sub = (sub = [])"
| "js_includes (c # cs) sub = (take (length sub) (c # cs) = sub \<or> js_includes cs sub)"

text \<open>\<open>error.name?.includes('Abort')\<close>, read as a condition.\<close>

fun name_includes_Abort :: "js_error \<Rightarrow> bool" where
  "name_includes_Abort e =
     (case error_name e of None \<Rightarrow> False | Some n \<Rightarrow> js_includes n (ascii ''Abort''))"

text \<open>What a call does besides returning: the requests it sends and the sleeps it takes.\<close>

datatype event = Request nat | Sleep rat

text \<open>
  \<open>net k\<close> is the outcome of the \<open>k\<close>-th request sent; \<open>k\<close> is the number of requests
  sent before this call. The result is what the promise settles to, with the events in
  order.
\<close>

function fetchWithRetry ::
  "(nat \<Rightarrow> fetch_outcome) \<Rightarrow> nat \<Rightarrow> int \<Rightarrow> (js_error + response) \<times> event list" where
  "fetchWithRetry net k retries =
     (case attempt (net k) of
        Inr r \<Rightarrow> (Inr r, [Request k])
      | Inl e \<Rightarrow>
          if retries > 0 \<and> \<not> name_includes_Abort e then
            (let delay = RETRY_DELAY * RETRY_MULTIPLIER powi (MAX_RETRIES - retries);
                 rest = fetchWithRetry net (k + 1) (retries - 1)
             in (fst rest, Request k # Sleep delay # snd rest))
          else (Inl e, [Request k]))"
  by pat_completeness auto
termination
  by (relation "measure (\<lambda>(net, k, retries). nat retries)") auto

declare fetchWithRetry.simps [simp del]

subsection \<open>isValidEmail\<close>

text \<open>
  Regular expressions with character classes, matched by derivatives. A class is a list
  of ranges of code units.
\<close>

datatype rx = Nul | Eps | Cls "(nat \<times> nat) list" | Alt rx rx | Seq rx rx | Star rx

definition in_cls :: "nat \<Rightarrow> (nat \<times> nat) list \<Rightarrow> bool" where
  "in_cls c rs = list_ex (\<lambda>(lo, hi). lo \<le> c \<and> c \<le> hi) rs"

primrec nullable :: "rx \<Rightarrow> bool" where
  "nullable Nul = False"
| "nullable Eps = True"
| "nullable (Cls rs) = False"
| "nullable (Alt r s) = (nullable r \<or> nullable s)"
| "nullable (Seq r s) = (nullable r \<and> nullable s)"
| "nullable (Star r) = True"

primrec deriv :: "nat \<Rightarrow> rx \<Rightarrow> rx" where
  "deriv c Nul = Nul"
| "deriv c Eps = Nul"
| "deriv c (Cls rs) = (if in_cls c rs then Eps else Nul)"
| "deriv c (Alt r s) = Alt (deriv c r) (deriv c s)"
| "deriv c (Seq r s) =
     (if nullable r then Alt (Seq (deriv c r) s) (deriv c s) else Seq (deriv c r) s)"
| "deriv c (Star r) = Seq (deriv c r) (Star r)"

text \<open>\<open>/^r$/.test(s)\<close>: the whole of \<open>s\<close> matches \<open>r\<close>.\<close>

definition matches :: "rx \<Rightarrow> jsstring \<Rightarrow> bool" where
  "matches r s = nullable (foldl (\<lambda>r c. deriv c r) r s)"

definition range :: "char \<Rightarrow> char \<Rightarrow> nat \<times> nat" where
  "range a b = (of_char a, of_char b)"

definition one :: "char \<Rightarrow> nat \<times> nat" where
  "one a = (of_char a, of_char a)"

definition Plus :: "rx \<Rightarrow> rx" where
  "Plus r = Seq r (Star r)"

text \<open>\<open>[a-zA-Z0-9._%+-]\<close>, \<open>[a-zA-Z0-9.-]\<close> and \<open>[a-zA-Z]\<close>.\<close>

definition local_class :: rx where
  "local_class = Cls [range CHR ''a'' CHR ''z'', range CHR ''A'' CHR ''Z'', range CHR ''0'' CHR ''9'',
     one CHR ''.'', one CHR ''_'', one CHR ''%'', one CHR ''+'', one CHR ''-'']"

definition host_class :: rx where
  "host_class = Cls [range CHR ''a'' CHR ''z'', range CHR ''A'' CHR ''Z'', range CHR ''0'' CHR ''9'',
     one CHR ''.'', one CHR ''-'']"

definition alpha_class :: rx where
  "alpha_class = Cls [range CHR ''a'' CHR ''z'', range CHR ''A'' CHR ''Z'']"

text \<open>\<open>/^[a-zA-Z0-9._%+-]+@[a-zA-Z0-9.-]+\.[a-zA-Z]{2,}$/\<close>.\<close>

definition email_rx :: rx where
  "email_rx =
     Seq (Plus local_class)
       (Seq (Cls [one CHR ''@''])
         (Seq (Plus host_class)
           (Seq (Cls [one CHR ''.''])
             (Seq alpha_class (Seq alpha_class (Star alpha_class))))))"

definition isValidEmail :: "jsstring \<Rightarrow> bool" where
  "isValidEmail email = matches email_rx email"

section \<open>Message normalisation\<close>

text \<open>The placeholder subject \<open>'(...)'\<close> of the source: twelve code units, two Arabic words
  in parentheses (U+0628 U+062F U+0648 U+0646, a space, U+0639 U+0646 U+0648 U+0627 U+0646).\<close>

definition placeholder :: jsstring where
  "placeholder = [40, 1576, 1583, 1608, 1606, 32, 1593, 1606, 1608, 1575, 1606, 41]"

record summary =
  s_id :: jsval
  s_from :: jsval
  s_subject :: jsval
  s_date :: jsval
  s_preview :: jsval

text \<open>\<open>s.split(sep)\<close> for a one-unit separator, and \<open>.pop()\<close> on its result.\<close>

fun split_on :: "nat \<Rightarrow> jsstring \<Rightarrow> jsstring list" where
  "split_on sep [] = [[]]"
| "split_on sep (c # cs) =
     (if c = sep then [] # split_on sep cs
      else (case split_on sep cs of [] \<Rightarrow> [[c]] | x # xs \<Rightarrow> (c # x) # xs))"

definition pop :: "jsstring list \<Rightarrow> jsval" where
  "pop xs = (case xs of [] \<Rightarrow> JUndefined | _ \<Rightarrow> JStr (last xs))"

text \<open>
  \<open>v?.split('/').pop()\<close> and \<open>v?.substring(0, 100)\<close>: the optional chain stops at a null
  or undefined \<open>v\<close>; a string has the method; on any other value the method is
  \<open>undefined\<close> and calling it throws a TypeError.
\<close>

definition split_pop :: "jsval \<Rightarrow> js_error + jsval" where
  "split_pop v =
     (case v of
        JUndefined \<Rightarrow> Inr JUndefined
      | JNull \<Rightarrow> Inr JUndefined
      | JStr s \<Rightarrow> Inr (pop (split_on (of_char CHR ''/'') s))
      | _ \<Rightarrow> Inl TypeError)"

definition substring_0_100 :: "jsval \<Rightarrow> js_error + jsval" where
  "substring_0_100 v =
     (case v of
        JUndefined \<Rightarrow> Inr JUndefined
      | JNull \<Rightarrow> Inr JUndefined
      | JStr s \<Rightarrow> Inr (JStr (take 100 s))
      | _ \<Rightarrow> Inl TypeError)"

text \<open>The callback of \<open>messages.map\<close>: one provider record to one summary.\<close>

definition normalizeMessage :: "jsval \<Rightarrow> js_error + summary" where
  "normalizeMessage msg =
     (if nullish msg then Inl TypeError
      else
        (case (let a = js_or (get_prop msg (ascii ''id'')) (get_prop msg (ascii ''mail_id''))
               in if truthy a then Inr a else split_pop (get_prop msg (ascii ''@id''))) of
           Inl e \<Rightarrow> Inl e
         | Inr i \<Rightarrow>
             (case substring_0_100 (get_prop msg (ascii ''textBody'')) of
                Inl e \<Rightarrow> Inl e
              | Inr tb \<Rightarrow>
                  Inr \<lparr>s_id = i,
                       s_from = js_or (js_or (get_prop msg (ascii ''from''))
                                  (get_prop msg (ascii ''mail_from'')))
                                  (get_prop msg (ascii ''fromAddress'')),
                       s_subject = js_or (js_or (get_prop msg (ascii ''subject''))
                                  (get_prop msg (ascii ''mail_subject'')))
                                  (JStr placeholder),
                       s_date = js_or (js_or (get_prop msg (ascii ''date''))
                                  (get_prop msg (ascii ''mail_timestamp'')))
                                  (get_prop msg (ascii ''createdAt'')),
                       s_preview = js_or (js_or tb (get_prop msg (ascii ''mail_excerpt'')))
                                  (JStr [])\<rparr>)))"

text \<open>\<open>xs.map(f)\<close> for a callback that can throw: the first throw ends the map.\<close>

fun map_throwing :: "('a \<Rightarrow> js_error + 'b) \<Rightarrow> 'a list \<Rightarrow> js_error + 'b list" where
  "map_throwing f [] = Inr []"
| "map_throwing f (x # xs) =
     (case f x of
        Inl e \<Rightarrow> Inl e
      | Inr y \<Rightarrow> (case map_throwing f xs of Inl e \<Rightarrow> Inl e | Inr ys \<Rightarrow> Inr (y # ys)))"

definition normalizeMessages :: "jsval \<Rightarrow> js_error + summary list" where
  "normalizeMessages messages =
     (case messages of
        JArr ms \<Rightarrow> map_throwing normalizeMessage ms
      | _ \<Rightarrow> Inr [])"

record detail =
  d_id :: jsval
  d_from :: jsval
  d_subject :: jsval
  d_date :: jsval
  d_body :: jsval
  d_textBody :: jsval
  d_htmlBody :: jsval
  d_attachments :: jsval

text \<open>The object literal \<open>normalized\<close> of \<open>getMessage\<close>, for a truthy \<open>message\<close>.\<close>

definition normalizeDetail :: "jsval \<Rightarrow> jsval \<Rightarrow> detail" where
  "normalizeDetail message messageId =
     \<lparr>d_id = js_or (get_prop message (ascii ''id'')) messageId,
      d_from = js_or (js_or (get_prop message (ascii ''from''))
                 (get_prop message (ascii ''mail_from'')))
                 (get_prop message (ascii ''fromAddress'')),
      d_subject = js_or (js_or (get_prop message (ascii ''subject''))
                 (get_prop message (ascii ''mail_subject'')))
                 (JStr placeholder),
      d_date = js_or (js_or (get_prop message (ascii ''date''))
                 (get_prop message (ascii ''mail_timestamp'')))
                 (get_prop message (ascii ''createdAt'')),
      d_body = js_or (js_or (get_prop message (ascii ''body''))
                 (get_prop message (ascii ''mail_body'')))
                 (get_prop message (ascii ''text'')),
      d_textBody = js_or (js_or (get_prop message (ascii ''textBody''))
                 (get_prop message (ascii ''body'')))
                 (get_prop message (ascii ''mail_body'')),
      d_htmlBody = js_or (js_or (get_prop message (ascii ''htmlBody''))
                 (get_prop message (ascii ''html'')))
                 JNull,
      d_attachments = js_or (get_prop message (ascii ''attachments'')) (JArr [])\<rparr>"

section \<open>TempMailManager\<close>

text \<open>
  The three provider objects of \<open>this.providers\<close>. Their methods talk to the network;
  what a call to one of them returns or throws is given by the environment. The manager
  is verified against every behaviour of a provider method: returning any value,
  or throwing.
\<close>

datatype provider = secmail | mailtm | guerrilla

fun name :: "provider \<Rightarrow> jsstring" where
  "name secmail = ascii ''1secmail''"
| "name mailtm = ascii ''mail.tm''"
| "name guerrilla = ascii ''guerrillamail''"

text \<open>A call of a provider method, with its arguments.\<close>

datatype call =
    CheckHealth provider
  | CreateEmail provider
  | GetMessages provider "jsval list"
  | GetMessage provider "jsval list"

text \<open>
  What \<open>provider.createEmail()\<close> resolves to: an object with these fields, each a string
  or absent (\<open>None\<close>); the three providers build them as strings.
\<close>

record creation =
  res_login :: "jsstring option"
  res_domain :: "jsstring option"
  res_email :: "jsstring option"

record stats =
  emailsCreated :: nat
  messagesReceived :: nat
  providerSwitches :: nat

text \<open>
  The fields of the manager. \<open>messageCache\<close> is the \<open>Map\<close> from message ids to
  normalised messages; an id is a primitive value (a number or a string), which a \<open>Map\<close>
  compares by value. \<open>refreshInterval\<close> is the handle of the interval timer, if one runs.
\<close>

record manager =
  currentProvider :: "provider option"
  email :: "jsstring option"
  login :: "jsstring option"
  domain :: "jsstring option"
  messages :: "summary list"
  refreshInterval :: "nat option"
  messageCache :: "jsval \<rightharpoonup> detail"
  lastRefresh :: int
  stats :: stats

text \<open>The state the constructor leaves.\<close>

definition new_manager :: manager where
  "new_manager =
     \<lparr>currentProvider = None, email = None, login = None, domain = None, messages = [],
      refreshInterval = None, messageCache = Map.empty, lastRefresh = 0,
      stats = \<lparr>emailsCreated = 0, messagesReceived = 0, providerSwitches = 0\<rparr>\<rparr>"

definition providerOrder :: "provider list" where
  "providerOrder = [secmail, mailtm, guerrilla]"

subsection \<open>initialize\<close>

fun initLoop :: "(provider \<Rightarrow> bool outcome) \<Rightarrow> provider list \<Rightarrow> manager \<Rightarrow> manager \<times> call list" where
  "initLoop health [] s = (s, [])"
| "initLoop health (p # ps) s =
     (case health p of
        Returns True \<Rightarrow> (s\<lparr>currentProvider := Some p\<rparr>, [CheckHealth p])
      | _ \<Rightarrow> (let rest = initLoop health ps s in (fst rest, CheckHealth p # snd rest)))"

definition initialize :: "(provider \<Rightarrow> bool outcome) \<Rightarrow> manager \<Rightarrow> manager \<times> call list" where
  "initialize health s =
     (let r = initLoop health providerOrder s
      in (if currentProvider (fst r) = None then (fst r)\<lparr>currentProvider := Some secmail\<rparr>
          else fst r,
          snd r))"

subsection \<open>createEmail\<close>

text \<open>\<open>result && result.email && isValidEmail(result.email)\<close>.\<close>

definition accepted :: "creation option \<Rightarrow> bool" where
  "accepted result =
     (case result of
        None \<Rightarrow> False
      | Some r \<Rightarrow> truthy_str (res_email r) \<and> isValidEmail (the (res_email r)))"

text \<open>
  The \<open>for\<close> loop over \<open>providerOrder\<close>: the address returned from inside the loop, if
  any, the state, and the provider calls made.
\<close>

fun createLoop ::
  "(provider \<Rightarrow> creation option outcome) \<Rightarrow> provider list \<Rightarrow> manager
     \<Rightarrow> jsstring option \<times> manager \<times> call list" where
  "createLoop create [] s = (None, s, [])"
| "createLoop create (p # ps) s =
     (case create p of
        Returns result \<Rightarrow>
          if accepted result then
            (res_email (the result),
             s\<lparr>currentProvider := Some p,
               email := res_email (the result),
               login := res_login (the result),
               domain := res_domain (the result),
               messages := [],
               messageCache := Map.empty,
               stats := (stats s)\<lparr>emailsCreated := emailsCreated (stats s) + 1\<rparr>\<rparr>,
             [CreateEmail p])
          else
            (let rest = createLoop create ps s
             in (fst rest, fst (snd rest), CreateEmail p # snd (snd rest)))
      | Throws error \<Rightarrow>
          (let rest = createLoop create ps
                 (s\<lparr>stats := (stats s)\<lparr>providerSwitches := providerSwitches (stats s) + 1\<rparr>\<rparr>)
           in (fst rest, fst (snd rest), CreateEmail p # snd (snd rest))))"

definition createEmail ::
  "(provider \<Rightarrow> bool outcome) \<Rightarrow> (provider \<Rightarrow> creation option outcome) \<Rightarrow> (nat \<Rightarrow> rat)
     \<Rightarrow> manager \<Rightarrow> (js_error + jsstring) \<times> manager \<times> call list" where
  "createEmail health create rnd s =
     (let i = (if currentProvider s = None then initialize health s else (s, []));
          r = createLoop create providerOrder (fst i)
      in case fst r of
           Some address \<Rightarrow> (Inr address, fst (snd r), snd i @ snd (snd r))
         | None \<Rightarrow>
             (let s1 = fst (snd r);
                  s2 = s1\<lparr>login := Some (generateRandomString rnd 12 True)\<rparr>;
                  s3 = s2\<lparr>domain := Some (ascii ''1secmail.com'')\<rparr>;
                  s4 = s3\<lparr>email := Some (the (login s3) @ ascii ''@'' @ the (domain s3))\<rparr>;
                  s5 = s4\<lparr>currentProvider := Some secmail\<rparr>
              in (Inr (the (email s5)), s5, snd i @ snd (snd r))))"

subsection \<open>getMessages\<close>

text \<open>The dispatch on the provider's name inside the \<open>try\<close> block.\<close>

definition listCall :: "(call \<Rightarrow> jsval outcome) \<Rightarrow> provider \<Rightarrow> manager \<Rightarrow> jsval outcome \<times> call list" where
  "listCall env p s =
     (if name p = ascii ''1secmail'' then
        (let c = GetMessages p [js_of (login s), js_of (domain s)] in (env c, [c]))
      else if name p = ascii ''mail.tm'' then
        (let c = GetMessages p [] in (env c, [c]))
      else if name p = ascii ''guerrillamail'' then
        (let c = GetMessages p [] in (env c, [c]))
      else (Returns (JArr []), []))"

text \<open>The body of the \<open>try\<close> block up to the assignment to \<open>this.messages\<close>.\<close>

definition fetchAndNormalize ::
  "(call \<Rightarrow> jsval outcome) \<Rightarrow> provider \<Rightarrow> manager \<Rightarrow> (js_error + summary list) \<times> call list" where
  "fetchAndNormalize env p s =
     (let r = listCall env p s
      in (case fst r of Throws e \<Rightarrow> Inl e | Returns ms \<Rightarrow> normalizeMessages ms, snd r))"

text \<open>\<open>now\<close> is what \<open>Date.now()\<close> returns in this call.\<close>

definition getMessages ::
  "(call \<Rightarrow> jsval outcome) \<Rightarrow> int \<Rightarrow> manager \<Rightarrow> (js_error + summary list) \<times> manager \<times> call list" where
  "getMessages env now s =
     (if now - lastRefresh s < CACHE_DURATION then (Inr (messages s), s, [])
      else
        (let s1 = s\<lparr>lastRefresh := now\<rparr>
         in if currentProvider s1 = None \<or> \<not> truthy_str (login s1) \<or> \<not> truthy_str (domain s1)
            then (Inr [], s1, [])
            else
              (let r = fetchAndNormalize env (the (currentProvider s1)) s1
               in case fst r of
                    Inr ms \<Rightarrow> (Inr ms, s1\<lparr>messages := ms\<rparr>, snd r)
                  | Inl error \<Rightarrow> (Inr (messages s1), s1, snd r))))"

subsection \<open>getMessage\<close>

definition messageCall ::
  "(call \<Rightarrow> jsval outcome) \<Rightarrow> provider \<Rightarrow> manager \<Rightarrow> jsval \<Rightarrow> jsval outcome \<times> call list" where
  "messageCall env p s messageId =
     (if name p = ascii ''1secmail'' then
        (let c = GetMessage p [js_of (login s), js_of (domain s), messageId] in (env c, [c]))
      else if name p = ascii ''mail.tm'' then
        (let c = GetMessage p [messageId] in (env c, [c]))
      else if name p = ascii ''guerrillamail'' then
        (let c = GetMessage p [messageId] in (env c, [c]))
      else (Returns JNull, []))"

text \<open>The result \<open>None\<close> is JavaScript's \<open>null\<close>.\<close>

definition getMessage ::
  "(call \<Rightarrow> jsval outcome) \<Rightarrow> jsval \<Rightarrow> manager \<Rightarrow> (js_error + detail option) \<times> manager \<times> call list" where
  "getMessage env messageId s =
     (case messageCache s messageId of
        Some cached \<Rightarrow> (Inr (Some cached), s, [])
      | None \<Rightarrow>
          (case currentProvider s of
             None \<Rightarrow> (Inr None, s, [])
           | Some p \<Rightarrow>
               (let r = messageCall env p s messageId
                in case fst r of
                     Throws error \<Rightarrow> (Inr None, s, snd r)
                   | Returns message \<Rightarrow>
                       if truthy message then
                         (let normalized = normalizeDetail message messageId
                          in (Inr (Some normalized),
                              s\<lparr>messageCache := (messageCache s)(messageId \<mapsto> normalized),
                                stats := (stats s)\<lparr>messagesReceived := messagesReceived (stats s) + 1\<rparr>\<rparr>,
                              snd r))
                       else (Inr None, s, snd r))))"

subsection \<open>refreshEmail, isReady\<close>

text \<open>\<open>stopAutoRefresh\<close> clears the interval timer, if one is set.\<close>

definition stopAutoRefresh :: "manager \<Rightarrow> manager" where
  "stopAutoRefresh s = (if refreshInterval s \<noteq> None then s\<lparr>refreshInterval := None\<rparr> else s)"

definition refreshEmail ::
  "(provider \<Rightarrow> bool outcome) \<Rightarrow> (provider \<Rightarrow> creation option outcome) \<Rightarrow> (nat \<Rightarrow> rat)
     \<Rightarrow> manager \<Rightarrow> (js_error + jsstring) \<times> manager \<times> call list" where
  "refreshEmail health create rnd s =
     createEmail health create rnd ((stopAutoRefresh s)\<lparr>messages := [], messageCache := Map.empty\<rparr>)"

definition isReady :: "manager \<Rightarrow> bool" where
  "isReady s = (truthy_str (email s) \<and> currentProvider s \<noteq> None)"

section \<open>Conditions used in the statements\<close>

text \<open>
  An adapter failure in the walk of \<open>createEmail\<close>: the provider's \<open>createEmail\<close> throws,
  or what it returns does not pass the test of the \<open>if\<close>.
\<close>

definition failed :: "creation option outcome \<Rightarrow> bool" where
  "failed out = (case out of Throws e \<Rightarrow> True | Returns result \<Rightarrow> \<not> accepted result)"

text \<open>A value on which \<open>?.split\<close> and \<open>?.substring\<close> do not throw: absent, null or a string.\<close>

fun text_like :: "jsval \<Rightarrow> bool" where
  "text_like JUndefined = True"
| "text_like JNull = True"
| "text_like (JStr s) = True"
| "text_like _ = False"

text \<open>
  A record on which the two method calls of the normaliser do not throw: it is not null,
  its \<open>textBody\<close> is text-like, and so is its \<open>@id\<close> when that field is read at all, that
  is when neither \<open>id\<close> nor \<open>mail_id\<close> is truthy.
\<close>

definition well_typed :: "jsval \<Rightarrow> bool" where
  "well_typed msg =
     (\<not> nullish msg
      \<and> text_like (get_prop msg (ascii ''textBody''))
      \<and> (truthy (get_prop msg (ascii ''id'')) \<or> truthy (get_prop msg (ascii ''mail_id''))
           \<or> text_like (get_prop msg (ascii ''@id''))))"

text \<open>Every known subject field is missing; nothing resolves to a preview.\<close>

definition no_subject :: "jsval \<Rightarrow> bool" where
  "no_subject msg =
     (get_prop msg (ascii ''subject'') = JUndefined \<and> get_prop msg (ascii ''mail_subject'') = JUndefined)"

definition no_preview :: "jsval \<Rightarrow> bool" where
  "no_preview msg =
     (nullish (get_prop msg (ascii ''textBody'')) \<and> \<not> truthy (get_prop msg (ascii ''mail_excerpt'')))"

section \<open>Scenarios\<close>

text \<open>Concrete environments and states, used to run the model.\<close>

subsection \<open>Servers, as \<open>fetchWithRetry\<close> sees them\<close>

text \<open>
  A server that answers 503 twice, then 200; one whose first request gets no answer
  within the timeout; one whose first request fails to connect (\<open>fetch\<close> rejects with a
  TypeError).
\<close>

definition flaky :: "nat \<Rightarrow> fetch_outcome" where
  "flaky k = (if k < 2 then Responds \<lparr>status = 503, payload = []\<rparr>
              else Responds \<lparr>status = 200, payload = []\<rparr>)"

definition stalls_once :: "nat \<Rightarrow> fetch_outcome" where
  "stalls_once k = (if k = 0 then TimesOut else Responds \<lparr>status = 200, payload = []\<rparr>)"

definition refuses_once :: "nat \<Rightarrow> fetch_outcome" where
  "refuses_once k = (if k = 0 then Rejects TypeError
                     else Responds \<lparr>status = 200, payload = []\<rparr>)"

subsection \<open>Providers, as \<open>initialize\<close> and \<open>createEmail\<close> see them\<close>

definition healthy :: "provider \<Rightarrow> bool outcome" where
  "healthy p = Returns True"

definition unhealthy :: "provider \<Rightarrow> bool outcome" where
  "unhealthy p = Returns False"

text \<open>
  Two results of a provider's \<open>createEmail\<close>: an address that fails \<open>isValidEmail\<close> (the
  domain has no dot), as 1secmail builds it when its domain list holds such a domain,
  and an address that passes.
\<close>

definition rejected_address :: creation where
  "rejected_address =
     \<lparr>res_login = Some (ascii ''kqzwxnmplrtv''), res_domain = Some (ascii ''localhost''),
      res_email = Some (ascii ''kqzwxnmplrtv@localhost'')\<rparr>"

definition good_address :: creation where
  "good_address =
     \<lparr>res_login = Some (ascii ''hbnvcxzasdfg''), res_domain = Some (ascii ''example.org''),
      res_email = Some (ascii ''hbnvcxzasdfg@example.org'')\<rparr>"

text \<open>Every provider throws; only guerrillamail works; the first provider fails in one of
  the two ways and the others work; no provider yields a usable address.\<close>

definition all_down :: "provider \<Rightarrow> creation option outcome" where
  "all_down p = Throws (HttpError 503)"

definition only_guerrilla :: "provider \<Rightarrow> creation option outcome" where
  "only_guerrilla p = (if p = guerrilla then Returns (Some good_address) else Throws (HttpError 503))"

definition first_invalid :: "provider \<Rightarrow> creation option outcome" where
  "first_invalid p = (if p = secmail then Returns (Some rejected_address) else Returns (Some good_address))"

definition first_throws :: "provider \<Rightarrow> creation option outcome" where
  "first_throws p = (if p = secmail then Throws (HttpError 503) else Returns (Some good_address))"

definition none_usable :: "provider \<Rightarrow> creation option outcome" where
  "none_usable p = (if p = secmail then Returns (Some rejected_address) else Throws (HttpError 503))"

subsection \<open>Providers, as \<open>getMessages\<close> and \<open>getMessage\<close> see them\<close>

text \<open>A message as 1secmail's \<open>readMessage\<close> returns it, and provider methods that return
  it, return null, or throw.\<close>

definition letter :: jsval where
  "letter = JObj [(ascii ''id'', JNum 1), (ascii ''from'', JStr (ascii ''bank@example.org'')),
                  (ascii ''subject'', JStr (ascii ''Your code'')), (ascii ''body'', JStr (ascii ''123456''))]"

definition delivers :: "call \<Rightarrow> jsval outcome" where
  "delivers c = Returns letter"

definition silent :: "call \<Rightarrow> jsval outcome" where
  "silent c = Returns JNull"

definition offline :: "call \<Rightarrow> jsval outcome" where
  "offline c = Throws (HttpError 503)"

text \<open>Two records of a message list: one in guerrillamail's format without a subject,
  one whose \<open>textBody\<close> is a number.\<close>

definition bare_record :: jsval where
  "bare_record = JObj [(ascii ''mail_id'', JStr (ascii ''77'')), (ascii ''mail_from'', JStr (ascii ''a@b.cc''))]"

definition odd_record :: jsval where
  "odd_record = JObj [(ascii ''id'', JNum 7), (ascii ''textBody'', JNum 5)]"

subsection \<open>States of the manager\<close>

text \<open>
  A manager with a 1secmail mailbox whose last listing was fetched at 1700000000000 and
  that has read message 1 (\<open>reading\<close>); the same with one summary stored (\<open>inbox\<close>), with
  an empty read cache (\<open>mailbox\<close>); and a new manager after \<open>initialize\<close> alone, with a
  provider pinned and no address yet (\<open>pinned_only\<close>).
\<close>

definition old_letter :: detail where
  "old_letter =
     \<lparr>d_id = JNum 1, d_from = JStr (ascii ''bank@example.org''), d_subject = JStr (ascii ''Your code''),
      d_date = JStr (ascii ''2024-01-01 10:00:00''), d_body = JStr (ascii ''123456''),
      d_textBody = JStr (ascii ''123456''), d_htmlBody = JNull, d_attachments = JArr []\<rparr>"

definition seen :: summary where
  "seen = \<lparr>s_id = JNum 1, s_from = JStr (ascii ''bank@example.org''),
           s_subject = JStr (ascii ''Your code''), s_date = JStr (ascii ''2024-01-01 10:00:00''),
           s_preview = JStr []\<rparr>"

definition reading :: manager where
  "reading =
     \<lparr>currentProvider = Some secmail, email = Some (ascii ''hbnvcxzasdfg@1secmail.org''),
      login = Some (ascii ''hbnvcxzasdfg''), domain = Some (ascii ''1secmail.org''), messages = [],
      refreshInterval = None, messageCache = [JNum 1 \<mapsto> old_letter],
      lastRefresh = 1700000000000,
      stats = \<lparr>emailsCreated = 1, messagesReceived = 1, providerSwitches = 0\<rparr>\<rparr>"

definition inbox :: manager where
  "inbox = reading\<lparr>messages := [seen]\<rparr>"

definition mailbox :: manager where
  "mailbox = reading\<lparr>messageCache := Map.empty\<rparr>"

definition pinned_only :: manager where
  "pinned_only = new_manager\<lparr>currentProvider := Some secmail\<rparr>"

section \<open>Basic facts\<close>

lemma ascii_Nil: "ascii [] = []"
  by (simp add: ascii_def)

lemma name_includes_Abort_AbortError: "name_includes_Abort AbortError"
  by (simp add: ascii_def)

lemma name_includes_Abort_HttpError: "\<not> name_includes_Abort (HttpError n)"
  by (simp add: ascii_def)

lemma name_includes_Abort_TypeError: "\<not> name_includes_Abort TypeError"
  by (simp add: ascii_def)

section \<open>The retry client\<close>

lemma fetchWithRetry_success:
  "attempt (net k) = Inr r \<Longrightarrow> fetchWithRetry net k retries = (Inr r, [Request k])"
  by (subst fetchWithRetry.simps) simp

lemma fetchWithRetry_retry:
  "attempt (net k) = Inl e \<Longrightarrow> 0 < retries \<Longrightarrow> \<not> name_includes_Abort e \<Longrightarrow>
   fetchWithRetry net k retries =
     (fst (fetchWithRetry net (k + 1) (retries - 1)),
      Request k # Sleep (RETRY_DELAY * RETRY_MULTIPLIER powi (MAX_RETRIES - retries))
        # snd (fetchWithRetry net (k + 1) (retries - 1)))"
  by (subst fetchWithRetry.simps) (simp add: Let_def)

lemma fetchWithRetry_give_up:
  "attempt (net k) = Inl e \<Longrightarrow> retries \<le> 0 \<or> name_includes_Abort e \<Longrightarrow>
   fetchWithRetry net k retries = (Inl e, [Request k])"
  by (subst fetchWithRetry.simps) auto

text \<open>
  C7. Called with three retries, a request whose first two attempts fail with errors
  that are retried (their name does not contain "Abort") and whose third attempt is
  answered with a success response returns that response, after exactly two sleeps:
  1000 ms (\<open>RETRY_DELAY * RETRY_MULTIPLIER ^ 0\<close>) before the second attempt and 2000 ms
  (\<open>RETRY_DELAY * RETRY_MULTIPLIER ^ 1\<close>) before the third.
\<close>

theorem fetchWithRetry_third_attempt_succeeds:
  assumes "attempt (net k) = Inl e1" and "\<not> name_includes_Abort e1"
    and "attempt (net (k + 1)) = Inl e2" and "\<not> name_includes_Abort e2"
    and "attempt (net (k + 2)) = Inr r"
  shows "fetchWithRetry net k 3 =
           (Inr r, [Request k, Sleep 1000, Request (k + 1), Sleep 2000, Request (k + 2)])
         \<and> RETRY_DELAY * RETRY_MULTIPLIER ^ 0 = 1000
         \<and> RETRY_DELAY * RETRY_MULTIPLIER ^ 1 = 2000"
proof -
  have third: "fetchWithRetry net (k + 2) 1 = (Inr r, [Request (k + 2)])"
    using assms(5) by (rule fetchWithRetry_success)
  have second: "fetchWithRetry net (k + 1) 2 =
      (Inr r, [Request (k + 1), Sleep 2000, Request (k + 2)])"
    using fetchWithRetry_retry [of net "k + 1" e2 2] assms(3,4) third
    by (simp add: RETRY_DELAY_def RETRY_MULTIPLIER_def MAX_RETRIES_def add.commute)
  have first: "fetchWithRetry net k 3 =
      (Inr r, [Request k, Sleep 1000, Request (k + 1), Sleep 2000, Request (k + 2)])"
    using fetchWithRetry_retry [of net k e1 3] assms(1,2) second
    by (simp add: RETRY_DELAY_def RETRY_MULTIPLIER_def MAX_RETRIES_def)
  then show ?thesis
    by (simp add: RETRY_DELAY_def RETRY_MULTIPLIER_def)
qed

theorem fetchWithRetry_third_attempt_succeeds_witness:
  "fetchWithRetry flaky 0 3 =
     (Inr \<lparr>status = 200, payload = []\<rparr>,
      [Request 0, Sleep 1000, Request 1, Sleep 2000, Request 2])"
  using fetchWithRetry_third_attempt_succeeds
    [of flaky 0 "HttpError 503" "HttpError 503" "\<lparr>status = 200, payload = []\<rparr>"]
  by (simp add: flaky_def ok_def ascii_def)

section \<open>Creating a mailbox\<close>

lemma pick_in_range:
  assumes "0 \<le> r" and "r < 1" and "cs \<noteq> []"
  shows "\<exists>c \<in> set cs. pick cs r = [c]"
proof -
  let ?n = "length cs"
  let ?k = "\<lfloor>r * of_nat ?n\<rfloor>"
  have n: "0 < ?n" using assms(3) by simp
  have "0 \<le> r * of_nat ?n" using assms(1) by simp
  then have k0: "0 \<le> ?k" by simp
  have "r * of_nat ?n < of_nat ?n" using assms(2) n by simp
  then have "?k < int ?n" by (simp add: floor_less_iff)
  then have k1: "nat ?k < ?n" using k0 by linarith
  then have "cs ! nat ?k \<in> set cs" by simp
  then show ?thesis using k0 k1 by (auto simp: pick_def Let_def)
qed

lemma genLoop_shape:
  "(\<forall>i. 0 \<le> rnd i \<and> rnd i < 1) \<Longrightarrow> chars \<noteq> [] \<Longrightarrow>
   \<exists>more. genLoop rnd chars i len result = result @ more
           \<and> length more = len - i \<and> set more \<subseteq> set chars"
proof (induction rnd chars i len result rule: genLoop.induct)
  case (1 rnd chars i len result)
  show ?case
  proof (cases "i < len")
    case True
    obtain c where c: "c \<in> set chars" "pick chars (rnd i) = [c]"
      using pick_in_range [of "rnd i" chars] "1.prems" by blast
    obtain more where more:
      "genLoop rnd chars (i + 1) len (result @ pick chars (rnd i)) = (result @ pick chars (rnd i)) @ more"
      "length more = len - (i + 1)" "set more \<subseteq> set chars"
      using "1.IH" [OF True "1.prems"] by blast
    have "genLoop rnd chars i len result = result @ (c # more)"
      using True more(1) c(2) by (subst genLoop.simps) simp
    moreover have "length (c # more) = len - i"
      using True more(2) by simp
    moreover have "set (c # more) \<subseteq> set chars"
      using c(1) more(3) by simp
    ultimately show ?thesis by blast
  next
    case False
    then have "genLoop rnd chars i len result = result @ []"
      by (subst genLoop.simps) simp
    then show ?thesis using False by fastforce
  qed
qed

lemma generateRandomString_shape:
  assumes "\<forall>i. 0 \<le> rnd i \<and> rnd i < 1" and "0 < len"
  shows "length (generateRandomString rnd len True) = len
         \<and> hd (generateRandomString rnd len True) \<in> set letters
         \<and> set (generateRandomString rnd len True) \<subseteq> set (letters @ numbers)"
proof -
  have l: "letters \<noteq> []" by (simp add: letters_def ascii_def)
  obtain c where c: "c \<in> set letters" "pick letters (rnd 0) = [c]"
    using pick_in_range [of "rnd 0" letters] assms(1) l by blast
  obtain more where more:
    "genLoop rnd (letters @ numbers) 1 len [c] = [c] @ more"
    "length more = len - 1" "set more \<subseteq> set (letters @ numbers)"
    using genLoop_shape [of rnd "letters @ numbers" 1 len "[c]"] assms(1) l by auto
  have g: "generateRandomString rnd len True = c # more"
    using c(2) more(1) by (simp add: generateRandomString_def)
  show ?thesis using g c(1) more(2,3) assms(2) by auto
qed

lemma stats_initLoop: "stats (fst (initLoop health ps s)) = stats s"
  by (induction ps) (auto simp: Let_def split: outcome.splits bool.splits)

lemma stats_initialize: "stats (fst (initialize health s)) = stats s"
  by (simp add: initialize_def Let_def stats_initLoop)

lemma messageCache_initLoop: "messageCache (fst (initLoop health ps s)) = messageCache s"
  by (induction ps) (auto simp: Let_def split: outcome.splits bool.splits)

lemma messageCache_initialize: "messageCache (fst (initialize health s)) = messageCache s"
  by (simp add: initialize_def Let_def messageCache_initLoop)

lemma createLoop_all_failed:
  "\<forall>p \<in> set ps. failed (create p) \<Longrightarrow>
   fst (createLoop create ps s) = None
   \<and> snd (snd (createLoop create ps s)) = map CreateEmail ps
   \<and> messageCache (fst (snd (createLoop create ps s))) = messageCache s
   \<and> email (fst (snd (createLoop create ps s))) = email s"
  by (induction ps arbitrary: s) (auto simp: failed_def Let_def split: outcome.splits)


lemma not_isValidEmail_Nil: "\<not> isValidEmail []"
  by (simp add: isValidEmail_def matches_def email_rx_def Plus_def local_class_def)

text \<open>
  C4. If the \<open>createEmail\<close> attempt of each of the three providers fails, \<open>createEmail\<close>
  does not throw: it returns \<open>login@1secmail.com\<close> for a login of 12 characters drawn from
  letters and digits whose first character is a letter, it makes no provider call after
  the three failed attempts, it pins the 1secmail provider, and \<open>isReady\<close> holds afterwards.
\<close>

theorem createEmail_all_fail:
  assumes "\<forall>p. failed (create p)" and "\<forall>i. 0 \<le> rnd i \<and> rnd i < 1"
  shows "\<exists>lg. fst (createEmail health create rnd s) = Inr (lg @ ascii ''@1secmail.com'')
           \<and> length lg = 12 \<and> hd lg \<in> set letters \<and> set lg \<subseteq> set (letters @ numbers)
           \<and> email (fst (snd (createEmail health create rnd s))) = Some (lg @ ascii ''@1secmail.com'')
           \<and> currentProvider (fst (snd (createEmail health create rnd s))) = Some secmail
           \<and> isReady (fst (snd (createEmail health create rnd s)))
           \<and> snd (snd (createEmail health create rnd s)) =
               (if currentProvider s = None then snd (initialize health s) else [])
               @ [CreateEmail secmail, CreateEmail mailtm, CreateEmail guerrilla]"
proof -
  define i where "i = (if currentProvider s = None then initialize health s else (s, []))"
  define lg where "lg = generateRandomString rnd 12 True"
  have loop: "fst (createLoop create providerOrder (fst i)) = None"
    "snd (snd (createLoop create providerOrder (fst i))) = map CreateEmail providerOrder"
    using createLoop_all_failed [of providerOrder create "fst i"] assms(1) by simp_all
  have shape: "length lg = 12" "hd lg \<in> set letters" "set lg \<subseteq> set (letters @ numbers)"
    using generateRandomString_shape [of rnd 12] assms(2) by (simp_all add: lg_def)
  have at: "ascii ''@'' @ ascii ''1secmail.com'' = ascii ''@1secmail.com''"
    by (simp add: ascii_def)
  have res: "fst (createEmail health create rnd s) = Inr (lg @ ascii ''@1secmail.com'')"
    using loop(1) at by (simp add: createEmail_def Let_def i_def [symmetric] lg_def)
  have em: "email (fst (snd (createEmail health create rnd s))) = Some (lg @ ascii ''@1secmail.com'')"
    using loop(1) at by (simp add: createEmail_def Let_def i_def [symmetric] lg_def)
  have cp: "currentProvider (fst (snd (createEmail health create rnd s))) = Some secmail"
    using loop(1) by (simp add: createEmail_def Let_def i_def [symmetric])
  have calls: "snd (snd (createEmail health create rnd s)) =
      snd i @ [CreateEmail secmail, CreateEmail mailtm, CreateEmail guerrilla]"
    using loop by (simp add: createEmail_def Let_def i_def [symmetric] providerOrder_def)
  have ready: "isReady (fst (snd (createEmail health create rnd s)))"
    using em cp by (simp add: isReady_def ascii_def)
  have "snd i = (if currentProvider s = None then snd (initialize health s) else [])"
    by (simp add: i_def)
  then show ?thesis using res shape em cp ready calls by auto
qed

theorem createEmail_all_fail_witness:
  "fst (createEmail unhealthy all_down (\<lambda>i. 1 / 2) new_manager) = Inr (ascii ''nsssssssssss@1secmail.com'')
   \<and> isReady (fst (snd (createEmail unhealthy all_down (\<lambda>i. 1 / 2) new_manager)))
   \<and> snd (snd (createEmail unhealthy all_down (\<lambda>i. 1 / 2) new_manager)) =
        [CheckHealth secmail, CheckHealth mailtm, CheckHealth guerrilla,
         CreateEmail secmail, CreateEmail mailtm, CreateEmail guerrilla]"
proof -
  have h1: "\<forall>p. failed (all_down p)" by (simp add: failed_def all_down_def)
  have h2: "\<forall>i::nat. (0::rat) \<le> 1 / 2 \<and> (1::rat) / 2 < 1" by simp
  have g: "generateRandomString (\<lambda>i. 1 / 2) 12 True = ascii ''nsssssssssss''"
    by code_simp
  have a: "ascii ''nsssssssssss'' @ ascii ''@'' @ ascii ''1secmail.com'' = ascii ''nsssssssssss@1secmail.com''"
    by (simp add: ascii_def)
  have i: "snd (initialize unhealthy new_manager) = [CheckHealth secmail, CheckHealth mailtm, CheckHealth guerrilla]"
    by (simp add: initialize_def providerOrder_def unhealthy_def Let_def)
  obtain lg where lg: "fst (createEmail unhealthy all_down (\<lambda>i. 1 / 2) new_manager) = Inr (lg @ ascii ''@1secmail.com'')"
     "isReady (fst (snd (createEmail unhealthy all_down (\<lambda>i. 1 / 2) new_manager)))"
     "snd (snd (createEmail unhealthy all_down (\<lambda>i. 1 / 2) new_manager)) =
               (if currentProvider new_manager = None then snd (initialize unhealthy new_manager) else [])
               @ [CreateEmail secmail, CreateEmail mailtm, CreateEmail guerrilla]"
    using createEmail_all_fail [OF h1 h2, of unhealthy new_manager] by blast
  have "fst (createEmail unhealthy all_down (\<lambda>i. 1 / 2) new_manager) = Inr (ascii ''nsssssssssss@1secmail.com'')"
    by (simp add: createEmail_def Let_def g a all_down_def providerOrder_def new_manager_def initialize_def unhealthy_def)
  then show ?thesis using lg(2,3) i by (simp add: new_manager_def)
qed

lemma accepted_good_address: "accepted (Some good_address)"
  unfolding accepted_def good_address_def by code_simp

lemma rejected_rejected_address: "\<not> accepted (Some rejected_address)"
  unfolding accepted_def rejected_address_def by code_simp

lemma isValidEmail_nonempty: "isValidEmail a \<Longrightarrow> a \<noteq> []"
  using not_isValidEmail_Nil by auto

text \<open>
  C2. If in \<open>createEmail\<close> the first two providers of the priority order (1secmail, then
  mail.tm) each fail by throwing and the third (guerrillamail) returns a result with a
  valid address, then \<open>createEmail\<close> pins the guerrillamail provider, returns that address
  and increments \<open>stats.providerSwitches\<close> by exactly 2.
\<close>

theorem createEmail_third_provider:
  assumes "create secmail = Throws e1" and "create mailtm = Throws e2"
    and "create guerrilla = Returns (Some r)" and "res_email r = Some a" and "isValidEmail a"
  shows "fst (createEmail health create rnd s) = Inr a
         \<and> currentProvider (fst (snd (createEmail health create rnd s))) = Some guerrilla
         \<and> email (fst (snd (createEmail health create rnd s))) = Some a
         \<and> providerSwitches (stats (fst (snd (createEmail health create rnd s))))
             = providerSwitches (stats s) + 2"
proof -
  define i where "i = (if currentProvider s = None then initialize health s else (s, []))"
  have st: "stats (fst i) = stats s"
    by (simp add: i_def stats_initialize)
  have acc: "accepted (Some r)"
    using assms(4,5) isValidEmail_nonempty [of a] by (simp add: accepted_def)
  have loop: "fst (createLoop create providerOrder (fst i)) = Some a"
    "currentProvider (fst (snd (createLoop create providerOrder (fst i)))) = Some guerrilla"
    "email (fst (snd (createLoop create providerOrder (fst i)))) = Some a"
    "providerSwitches (stats (fst (snd (createLoop create providerOrder (fst i)))))
       = providerSwitches (stats s) + 2"
    using assms(1,2,3,4) acc st by (simp_all add: providerOrder_def Let_def)
  show ?thesis
    using loop by (simp add: createEmail_def Let_def i_def [symmetric])
qed

theorem createEmail_third_provider_witness:
  "fst (createEmail healthy only_guerrilla (\<lambda>i. 0) new_manager) = Inr (ascii ''hbnvcxzasdfg@example.org'')
   \<and> currentProvider (fst (snd (createEmail healthy only_guerrilla (\<lambda>i. 0) new_manager))) = Some guerrilla
   \<and> providerSwitches (stats (fst (snd (createEmail healthy only_guerrilla (\<lambda>i. 0) new_manager)))) = 2"
proof -
  have v: "isValidEmail (ascii ''hbnvcxzasdfg@example.org'')" by code_simp
  show ?thesis
    using createEmail_third_provider [of only_guerrilla "HttpError 503" "HttpError 503" good_address
      "ascii ''hbnvcxzasdfg@example.org''" healthy "\<lambda>i. 0" new_manager] v
    by (simp add: only_guerrilla_def good_address_def new_manager_def)
qed

text \<open>What one failed attempt does to the walk: it goes on with the next provider, and the
  counter moves only when the attempt threw.\<close>

lemma createLoop_failure_step:
  "failed (create p) \<Longrightarrow>
   \<exists>s'. createLoop create (p # ps) s =
          (fst (createLoop create ps s'), fst (snd (createLoop create ps s')),
           CreateEmail p # snd (snd (createLoop create ps s')))
        \<and> s' = s\<lparr>stats := (stats s)\<lparr>providerSwitches :=
                   providerSwitches (stats s) + (case create p of Throws e \<Rightarrow> 1 | Returns r \<Rightarrow> 0)\<rparr>\<rparr>"
  by (cases "create p") (simp_all add: failed_def Let_def)

text \<open>
  C3. The claim is that every adapter failure in the walk, a returned address that fails
  \<open>isValidEmail\<close> included, falls back to the next adapter and increments
  \<open>stats.providerSwitches\<close>. The code at that input: 1secmail returns an address that
  fails \<open>isValidEmail\<close> and mail.tm returns a valid one. The walk does fall back to mail.tm,
  and the counter stays at 0; the same run with 1secmail throwing leaves it at 1.
\<close>

theorem createEmail_rejected_address_not_counted:
  "fst (createEmail healthy first_invalid (\<lambda>i. 0) new_manager) = Inr (ascii ''hbnvcxzasdfg@example.org'')
   \<and> currentProvider (fst (snd (createEmail healthy first_invalid (\<lambda>i. 0) new_manager))) = Some mailtm
   \<and> snd (snd (createEmail healthy first_invalid (\<lambda>i. 0) new_manager))
        = [CheckHealth secmail, CreateEmail secmail, CreateEmail mailtm]
   \<and> providerSwitches (stats (fst (snd (createEmail healthy first_invalid (\<lambda>i. 0) new_manager)))) = 0
   \<and> providerSwitches (stats (fst (snd (createEmail healthy first_throws (\<lambda>i. 0) new_manager)))) = 1"
  using accepted_good_address rejected_rejected_address
  by (simp add: createEmail_def Let_def initialize_def providerOrder_def healthy_def
      first_invalid_def first_throws_def new_manager_def good_address_def)

section \<open>The read cache across a change of mailbox\<close>

lemma none_usable_failed: "failed (none_usable p)"
  using rejected_rejected_address by (simp add: failed_def none_usable_def)

lemma createLoop_found_clears:
  "fst (createLoop create ps s) \<noteq> None \<Longrightarrow>
   messageCache (fst (snd (createLoop create ps s))) = Map.empty"
  by (induction ps arbitrary: s) (auto simp: Let_def split: outcome.splits if_splits)

lemma createEmail_accepted_clears:
  "fst (createLoop create providerOrder
      (fst (if currentProvider s = None then initialize health s else (s, [])))) \<noteq> None \<Longrightarrow>
   messageCache (fst (snd (createEmail health create rnd s))) = Map.empty"
  using createLoop_found_clears [of create providerOrder]
  by (auto simp: createEmail_def Let_def split: option.splits)

lemma createLoop_cache:
  "messageCache (fst (snd (createLoop create ps s))) = Map.empty
   \<or> messageCache (fst (snd (createLoop create ps s))) = messageCache s"
proof (induction ps arbitrary: s)
  case Nil
  then show ?case by simp
next
  case (Cons p ps)
  show ?case
  proof (cases "create p")
    case (Throws e)
    let ?s = "s\<lparr>stats := (stats s)\<lparr>providerSwitches := providerSwitches (stats s) + 1\<rparr>\<rparr>"
    show ?thesis
      using Cons.IH [of ?s] Throws by (simp add: Let_def)
  next
    case (Returns result)
    show ?thesis
      using Cons.IH [of s] Returns by (simp add: Let_def)
  qed
qed

lemma createEmail_cache:
  "messageCache (fst (snd (createEmail health create rnd s))) = Map.empty
   \<or> messageCache (fst (snd (createEmail health create rnd s))) = messageCache s"
  using createLoop_cache [of create providerOrder "fst (if currentProvider s = None then initialize health s else (s, []))"]
  by (auto simp: createEmail_def Let_def messageCache_initialize split: option.splits)

lemma refreshEmail_clears:
  "messageCache (fst (snd (refreshEmail health create rnd s))) = Map.empty"
  using createEmail_cache [of health create rnd "(stopAutoRefresh s)\<lparr>messages := [], messageCache := Map.empty\<rparr>"]
  by (auto simp: refreshEmail_def)

text \<open>When every attempt fails, the fallback leaves the read cache as it was.\<close>

lemma createEmail_fallback_cache_unchanged:
  assumes "\<forall>p. failed (create p)"
  shows "messageCache (fst (snd (createEmail health create rnd s))) = messageCache s"
proof -
  define i where "i = (if currentProvider s = None then initialize health s else (s, []))"
  have c: "messageCache (fst i) = messageCache s"
    by (simp add: i_def messageCache_initialize)
  have "fst (createLoop create providerOrder (fst i)) = None"
    "messageCache (fst (snd (createLoop create providerOrder (fst i)))) = messageCache (fst i)"
    using createLoop_all_failed [of providerOrder create "fst i"] assms by simp_all
  then show ?thesis
    using c by (simp add: createEmail_def Let_def i_def [symmetric])
qed

text \<open>
  C1. The claim is that every replacement of the active mailbox clears \<open>messageCache\<close>.
  The code at an input where it does not: a manager holding a mailbox and one cached
  message calls \<open>createEmail\<close> while no provider yields a usable address. The local
  fallback replaces the address and leaves the cache as it was, so \<open>getMessage\<close> for the
  old id is served from the cache, without any provider call, under the new address.
\<close>

theorem createEmail_fallback_keeps_cache:
  "email reading = Some (ascii ''hbnvcxzasdfg@1secmail.org'')
   \<and> fst (createEmail healthy none_usable (\<lambda>i. 0) reading) = Inr (ascii ''aaaaaaaaaaaa@1secmail.com'')
   \<and> email (fst (snd (createEmail healthy none_usable (\<lambda>i. 0) reading)))
        = Some (ascii ''aaaaaaaaaaaa@1secmail.com'')
   \<and> messageCache (fst (snd (createEmail healthy none_usable (\<lambda>i. 0) reading))) (JNum 1)
        = Some old_letter
   \<and> fst (getMessage silent (JNum 1) (fst (snd (createEmail healthy none_usable (\<lambda>i. 0) reading))))
        = Inr (Some old_letter)
   \<and> snd (snd (getMessage silent (JNum 1) (fst (snd (createEmail healthy none_usable (\<lambda>i. 0) reading)))))
        = []"
proof -
  have g: "generateRandomString (\<lambda>i. 0) 12 True = ascii ''aaaaaaaaaaaa''"
    by code_simp
  have a: "ascii ''aaaaaaaaaaaa'' @ ascii ''@'' @ ascii ''1secmail.com'' = ascii ''aaaaaaaaaaaa@1secmail.com''"
    by (simp add: ascii_def)
  have loop: "createLoop none_usable providerOrder reading
      = (None, reading\<lparr>stats := (stats reading)\<lparr>providerSwitches := 2\<rparr>\<rparr>,
         [CreateEmail secmail, CreateEmail mailtm, CreateEmail guerrilla])"
    using rejected_rejected_address
    by (simp add: providerOrder_def none_usable_def Let_def reading_def)
  have cp: "currentProvider reading = Some secmail" by (simp add: reading_def)
  have s: "fst (snd (createEmail healthy none_usable (\<lambda>i. 0) reading))
      = reading\<lparr>stats := (stats reading)\<lparr>providerSwitches := 2\<rparr>,
          login := Some (ascii ''aaaaaaaaaaaa''), domain := Some (ascii ''1secmail.com''),
          email := Some (ascii ''aaaaaaaaaaaa@1secmail.com''), currentProvider := Some secmail\<rparr>"
    using cp loop by (simp add: createEmail_def Let_def g a)
  have r: "fst (createEmail healthy none_usable (\<lambda>i. 0) reading) = Inr (ascii ''aaaaaaaaaaaa@1secmail.com'')"
    using cp loop by (simp add: createEmail_def Let_def g a)
  show ?thesis
    unfolding s r by (simp add: reading_def getMessage_def)
qed

section \<open>The retry policy\<close>

text \<open>
  C6, as stated, fails: the first request gets no answer within the timeout, three retries
  remain, and \<open>fetchWithRetry\<close> sends no second request. The timer aborts the request, the
  rejection is an \<open>AbortError\<close>, and the test on the error's name exempts it from retry.
\<close>

theorem fetchWithRetry_timeout_not_retried:
  "fetchWithRetry stalls_once 0 3 = (Inl AbortError, [Request 0])"
  using fetchWithRetry_give_up [of stalls_once 0 AbortError 3] name_includes_Abort_AbortError
  by (simp add: stalls_once_def)

text \<open>
  C6, amended. A failure whose error name contains "Abort" is exempt from retry and is
  thrown at once, whatever the number of retries left; the failure of a request that
  timed out is such a failure. A failure whose name does not contain "Abort", which
  includes every response that is not 2xx, is retried while retries remain: the call
  sleeps and continues as the call for the next request with one retry less.
\<close>

theorem fetchWithRetry_retry_policy:
  assumes "attempt (net k) = Inl e"
  shows "(name_includes_Abort e \<longrightarrow> fetchWithRetry net k retries = (Inl e, [Request k]))
       \<and> (net k = TimesOut \<longrightarrow> name_includes_Abort e)
       \<and> (\<not> name_includes_Abort e \<and> 0 < retries \<longrightarrow>
            fetchWithRetry net k retries =
              (fst (fetchWithRetry net (k + 1) (retries - 1)),
               Request k # Sleep (RETRY_DELAY * RETRY_MULTIPLIER powi (MAX_RETRIES - retries))
                 # snd (fetchWithRetry net (k + 1) (retries - 1))))
       \<and> ((\<exists>r. net k = Responds r) \<longrightarrow> \<not> name_includes_Abort e)"
proof (intro conjI impI)
  assume "name_includes_Abort e"
  then show "fetchWithRetry net k retries = (Inl e, [Request k])"
    using fetchWithRetry_give_up [of net k e retries] assms by simp
next
  assume "net k = TimesOut"
  then have "e = AbortError" using assms by simp
  then show "name_includes_Abort e" using name_includes_Abort_AbortError by simp
next
  assume "\<not> name_includes_Abort e \<and> 0 < retries"
  then show "fetchWithRetry net k retries =
      (fst (fetchWithRetry net (k + 1) (retries - 1)),
       Request k # Sleep (RETRY_DELAY * RETRY_MULTIPLIER powi (MAX_RETRIES - retries))
         # snd (fetchWithRetry net (k + 1) (retries - 1)))"
    using fetchWithRetry_retry [of net k e retries] assms by simp
next
  assume "\<exists>r. net k = Responds r"
  then obtain r where "net k = Responds r" by blast
  then have "e = HttpError (status r)" using assms by (simp split: if_splits)
  then show "\<not> name_includes_Abort e" using name_includes_Abort_HttpError by simp
qed

theorem fetchWithRetry_retry_policy_witness:
  "fetchWithRetry stalls_once 0 3 = (Inl AbortError, [Request 0])
   \<and> fetchWithRetry flaky 0 3 =
       (fst (fetchWithRetry flaky 1 2), Request 0 # Sleep 1000 # snd (fetchWithRetry flaky 1 2))
   \<and> fetchWithRetry refuses_once 0 3 =
       (Inr \<lparr>status = 200, payload = []\<rparr>, [Request 0, Sleep 1000, Request 1])"
proof -
  have a: "fetchWithRetry stalls_once 0 3 = (Inl AbortError, [Request 0])"
    using fetchWithRetry_retry_policy [of stalls_once 0 AbortError 3]
    by (simp add: stalls_once_def)
  have b: "fetchWithRetry flaky 0 3 =
       (fst (fetchWithRetry flaky 1 2), Request 0 # Sleep 1000 # snd (fetchWithRetry flaky 1 2))"
    using fetchWithRetry_retry_policy [of flaky 0 "HttpError 503" 3]
    by (simp add: flaky_def ok_def RETRY_DELAY_def RETRY_MULTIPLIER_def MAX_RETRIES_def)
  have "fetchWithRetry refuses_once 1 2 = (Inr \<lparr>status = 200, payload = []\<rparr>, [Request 1])"
    using fetchWithRetry_success [of refuses_once 1 "\<lparr>status = 200, payload = []\<rparr>" 2]
    by (simp add: refuses_once_def ok_def)
  then have c: "fetchWithRetry refuses_once 0 3 =
       (Inr \<lparr>status = 200, payload = []\<rparr>, [Request 0, Sleep 1000, Request 1])"
    using fetchWithRetry_retry_policy [of refuses_once 0 TypeError 3]
    by (simp add: refuses_once_def RETRY_DELAY_def RETRY_MULTIPLIER_def MAX_RETRIES_def ascii_def)
  show ?thesis using a b c by simp
qed

section \<open>Normalising provider records\<close>

lemma split_pop_text_like: "text_like v \<Longrightarrow> \<exists>x. split_pop v = Inr x"
  by (cases v) (simp_all add: split_pop_def)

lemma substring_text_like: "text_like v \<Longrightarrow> \<exists>x. substring_0_100 v = Inr x"
  by (cases v) (simp_all add: substring_0_100_def)

lemma substring_nullish: "nullish v \<Longrightarrow> substring_0_100 v = Inr JUndefined"
  by (cases v) (simp_all add: substring_0_100_def)

lemma normalizeMessage_well_typed:
  assumes "well_typed msg"
  shows "\<exists>s. normalizeMessage msg = Inr s
           \<and> (no_subject msg \<longrightarrow> s_subject s = JStr placeholder)
           \<and> (no_preview msg \<longrightarrow> s_preview s = JStr [])"
proof -
  obtain tb where tb: "substring_0_100 (get_prop msg (ascii ''textBody'')) = Inr tb"
    using assms substring_text_like by (auto simp: well_typed_def)
  have tbn: "nullish (get_prop msg (ascii ''textBody'')) \<Longrightarrow> tb = JUndefined"
    using tb substring_nullish by fastforce
  obtain i where i: "(let a = js_or (get_prop msg (ascii ''id'')) (get_prop msg (ascii ''mail_id''))
               in if truthy a then Inr a else split_pop (get_prop msg (ascii ''@id''))) = Inr i"
  proof (cases "truthy (js_or (get_prop msg (ascii ''id'')) (get_prop msg (ascii ''mail_id'')))")
    case True
    then show ?thesis using that by (simp add: Let_def)
  next
    case False
    then have "text_like (get_prop msg (ascii ''@id''))"
      using assms by (auto simp: well_typed_def js_or_def split: if_splits)
    then show ?thesis using that False split_pop_text_like by (fastforce simp: Let_def)
  qed
  have n: "\<not> nullish msg" using assms by (simp add: well_typed_def)
  show ?thesis
    using n i tb tbn
    by (auto simp: normalizeMessage_def no_subject_def no_preview_def js_or_def)
qed

lemma map_throwing_all:
  "\<forall>x \<in> set xs. \<exists>y. f x = Inr y \<and> P x y \<Longrightarrow>
   \<exists>ys. map_throwing f xs = Inr ys \<and> length ys = length xs
         \<and> (\<forall>i < length xs. P (xs ! i) (ys ! i))"
proof (induction xs)
  case Nil
  then show ?case by simp
next
  case (Cons x xs)
  obtain y where y: "f x = Inr y" "P x y" using Cons.prems by auto
  obtain ys where ys: "map_throwing f xs = Inr ys" "length ys = length xs"
    "\<forall>i < length xs. P (xs ! i) (ys ! i)"
    using Cons by auto
  have "map_throwing f (x # xs) = Inr (y # ys)" using y(1) ys(1) by simp
  moreover have "\<forall>i < length (x # xs). P ((x # xs) ! i) ((y # ys) ! i)"
    using y(2) ys(3) by (auto simp: nth_Cons split: nat.splits)
  ultimately show ?case using ys(2) by auto
qed

text \<open>
  C10, amended. For records that are not null, whose \<open>textBody\<close> is absent, null or a
  string, and whose \<open>@id\<close> is absent, null or a string when neither \<open>id\<close> nor \<open>mail_id\<close>
  is truthy, \<open>normalizeMessages\<close> does not fail and produces one summary per record. A
  record in which \<open>subject\<close> and \<open>mail_subject\<close> are both missing gets the placeholder
  string as its subject, and a record with no \<open>textBody\<close> and no truthy \<open>mail_excerpt\<close>
  gets the empty string as its preview.
\<close>

theorem normalizeMessages_placeholder:
  assumes "\<forall>m \<in> set ms. well_typed m"
  shows "\<exists>ss. normalizeMessages (JArr ms) = Inr ss \<and> length ss = length ms
           \<and> (\<forall>i < length ms. (no_subject (ms ! i) \<longrightarrow> s_subject (ss ! i) = JStr placeholder)
                                \<and> (no_preview (ms ! i) \<longrightarrow> s_preview (ss ! i) = JStr []))"
proof -
  let ?P = "\<lambda>m s. (no_subject m \<longrightarrow> s_subject s = JStr placeholder)
                    \<and> (no_preview m \<longrightarrow> s_preview s = JStr [])"
  have "\<forall>m \<in> set ms. \<exists>s. normalizeMessage m = Inr s \<and> ?P m s"
    using assms normalizeMessage_well_typed by blast
  then show ?thesis
    using map_throwing_all [of ms normalizeMessage ?P] by (simp add: normalizeMessages_def)
qed

theorem normalizeMessages_placeholder_witness:
  "normalizeMessages (JArr [bare_record]) =
     Inr [\<lparr>s_id = JStr (ascii ''77''), s_from = JStr (ascii ''a@b.cc''), s_subject = JStr placeholder,
           s_date = JUndefined, s_preview = JStr []\<rparr>]"
proof -
  have w: "\<forall>m \<in> set [bare_record]. well_typed m"
    by (simp add: well_typed_def bare_record_def get_prop_def ascii_def)
  have ns: "no_subject bare_record" "no_preview bare_record"
    by (simp_all add: no_subject_def no_preview_def bare_record_def get_prop_def ascii_def)
  obtain ss where ss: "normalizeMessages (JArr [bare_record]) = Inr ss" "length ss = 1"
    "s_subject (ss ! 0) = JStr placeholder" "s_preview (ss ! 0) = JStr []"
    using normalizeMessages_placeholder [OF w] ns by auto
  have "normalizeMessages (JArr [bare_record]) =
     Inr [\<lparr>s_id = JStr (ascii ''77''), s_from = JStr (ascii ''a@b.cc''), s_subject = JStr placeholder,
           s_date = JUndefined, s_preview = JStr []\<rparr>]"
    by (simp add: normalizeMessages_def normalizeMessage_def bare_record_def get_prop_def js_or_def
        substring_0_100_def ascii_def)
  then show ?thesis using ss by simp
qed

text \<open>
  C10, as stated, fails: a record without \<open>subject\<close> and \<open>mail_subject\<close> whose \<open>textBody\<close>
  is a number. \<open>msg.textBody?.substring(0, 100)\<close> calls a method a number does not have,
  and \<open>normalizeMessages\<close> throws a TypeError instead of producing a summary.
\<close>

theorem normalizeMessages_throws_on_number:
  "no_subject odd_record \<and> normalizeMessages (JArr [odd_record]) = Inl TypeError"
  by (simp add: no_subject_def normalizeMessages_def normalizeMessage_def odd_record_def get_prop_def
      js_or_def substring_0_100_def ascii_def)

section \<open>Listing messages\<close>

lemma name_distinct:
  "ascii ''mail.tm'' \<noteq> ascii ''1secmail''" "ascii ''guerrillamail'' \<noteq> ascii ''1secmail''"
  "ascii ''guerrillamail'' \<noteq> ascii ''mail.tm''"
  by (simp_all add: ascii_def)

lemma listCall_one: "\<exists>args. listCall env p s = (env (GetMessages p args), [GetMessages p args])"
  by (cases p) (simp_all add: listCall_def Let_def name_distinct)

lemma messageCall_one:
  "\<exists>args. messageCall env p s messageId = (env (GetMessage p args), [GetMessage p args])"
  by (cases p) (simp_all add: messageCall_def Let_def name_distinct)

lemma getMessages_never_throws: "\<exists>ms. fst (getMessages env now s) = Inr ms"
  by (simp add: getMessages_def Let_def split: sum.splits)

lemma getMessages_limited:
  "now - lastRefresh s < CACHE_DURATION \<Longrightarrow> getMessages env now s = (Inr (messages s), s, [])"
  by (simp add: getMessages_def)

lemma getMessages_no_mailbox:
  "CACHE_DURATION \<le> now - lastRefresh s \<Longrightarrow>
   currentProvider s = None \<or> \<not> truthy_str (login s) \<or> \<not> truthy_str (domain s) \<Longrightarrow>
   getMessages env now s = (Inr [], s\<lparr>lastRefresh := now\<rparr>, [])"
  by (auto simp: getMessages_def Let_def)

lemma getMessages_fetch:
  assumes "CACHE_DURATION \<le> now - lastRefresh s" and "currentProvider s = Some p"
    and "truthy_str (login s)" and "truthy_str (domain s)"
  shows "\<exists>args. snd (snd (getMessages env now s)) = [GetMessages p args]
           \<and> (case env (GetMessages p args) of
                 Throws e \<Rightarrow> fst (getMessages env now s) = Inr (messages s)
                              \<and> messages (fst (snd (getMessages env now s))) = messages s
               | Returns v \<Rightarrow> True)
           \<and> lastRefresh (fst (snd (getMessages env now s))) = now"
proof -
  obtain args where a: "listCall env p (s\<lparr>lastRefresh := now\<rparr>)
      = (env (GetMessages p args), [GetMessages p args])"
    using listCall_one by blast
  show ?thesis
    using assms a
    by (auto simp: getMessages_def Let_def fetchAndNormalize_def split: sum.splits outcome.splits)
qed

text \<open>
  C5. \<open>getMessages\<close> never throws. In every run in which the listing call made to the
  pinned provider throws, \<open>getMessages\<close> returns the stored sequence \<open>this.messages\<close> and
  leaves it unchanged.
\<close>

theorem getMessages_listing_throws:
  assumes "c \<in> set (snd (snd (getMessages env now s)))" and "env c = Throws e"
  shows "fst (getMessages env now s) = Inr (messages s)
         \<and> messages (fst (snd (getMessages env now s))) = messages s
         \<and> (\<forall>env' now' s'. \<exists>ms. fst (getMessages env' now' s') = Inr ms)"
proof -
  have w: "CACHE_DURATION \<le> now - lastRefresh s"
    using assms(1) getMessages_limited [of now s env] by (cases "now - lastRefresh s < CACHE_DURATION") auto
  have m: "\<not> (currentProvider s = None \<or> \<not> truthy_str (login s) \<or> \<not> truthy_str (domain s))"
  proof
    assume "currentProvider s = None \<or> \<not> truthy_str (login s) \<or> \<not> truthy_str (domain s)"
    then have "getMessages env now s = (Inr [], s\<lparr>lastRefresh := now\<rparr>, [])"
      using w by (rule getMessages_no_mailbox [rotated])
    then show False using assms(1) by simp
  qed
  then obtain p where p: "currentProvider s = Some p" by auto
  obtain args where a: "snd (snd (getMessages env now s)) = [GetMessages p args]"
    "case env (GetMessages p args) of
       Throws e \<Rightarrow> fst (getMessages env now s) = Inr (messages s)
                    \<and> messages (fst (snd (getMessages env now s))) = messages s
     | Returns v \<Rightarrow> True"
    using getMessages_fetch [OF w p, of env] m by blast
  have "c = GetMessages p args" using assms(1) a(1) by simp
  then show ?thesis using a(2) assms(2) getMessages_never_throws by simp
qed

theorem getMessages_listing_throws_witness:
  "snd (snd (getMessages offline 1700000003000 inbox))
     = [GetMessages secmail [JStr (ascii ''hbnvcxzasdfg''), JStr (ascii ''1secmail.org'')]]
   \<and> fst (getMessages offline 1700000003000 inbox) = Inr [seen]
   \<and> messages (fst (snd (getMessages offline 1700000003000 inbox))) = [seen]"
proof -
  have c: "snd (snd (getMessages offline 1700000003000 inbox))
     = [GetMessages secmail [JStr (ascii ''hbnvcxzasdfg''), JStr (ascii ''1secmail.org'')]]"
    by (simp add: getMessages_def Let_def fetchAndNormalize_def listCall_def inbox_def reading_def
        CACHE_DURATION_def offline_def ascii_def)
  have "fst (getMessages offline 1700000003000 inbox) = Inr (messages inbox)
         \<and> messages (fst (snd (getMessages offline 1700000003000 inbox))) = messages inbox"
    using getMessages_listing_throws [of "GetMessages secmail [JStr (ascii ''hbnvcxzasdfg''), JStr (ascii ''1secmail.org'')]"
        offline 1700000003000 inbox "HttpError 503"] c
    by (simp add: offline_def)
  then show ?thesis using c by (simp add: inbox_def)
qed

text \<open>
  C8, amended. A \<open>getMessages\<close> call made less than 2000 ms (\<open>CACHE_DURATION\<close>) after
  \<open>lastRefresh\<close>, the time of the last call that passed the rate limit, returns the stored
  sequence without a provider call and leaves the state, \<open>lastRefresh\<close> included, as it
  was. A call made 2000 ms or more after \<open>lastRefresh\<close> sets \<open>lastRefresh\<close> to its own time;
  when a provider is pinned and login and domain are non-empty it makes one listing call
  to the pinned provider, and otherwise it returns the empty sequence without a call.
\<close>

theorem getMessages_rate_limit:
  "CACHE_DURATION = 2000
   \<and> (now - lastRefresh s < CACHE_DURATION \<longrightarrow> getMessages env now s = (Inr (messages s), s, []))
   \<and> (CACHE_DURATION \<le> now - lastRefresh s \<and> currentProvider s = Some p
        \<and> truthy_str (login s) \<and> truthy_str (domain s) \<longrightarrow>
        (\<exists>args. snd (snd (getMessages env now s)) = [GetMessages p args])
        \<and> lastRefresh (fst (snd (getMessages env now s))) = now)
   \<and> (CACHE_DURATION \<le> now - lastRefresh s
        \<and> (currentProvider s = None \<or> \<not> truthy_str (login s) \<or> \<not> truthy_str (domain s)) \<longrightarrow>
        getMessages env now s = (Inr [], s\<lparr>lastRefresh := now\<rparr>, []))"
  using getMessages_limited [of now s env] getMessages_no_mailbox [of now s env]
    getMessages_fetch [of now s p env]
  by (auto simp: CACHE_DURATION_def)

theorem getMessages_rate_limit_witness:
  "getMessages silent 1700000001999 inbox = (Inr [seen], inbox, [])
   \<and> snd (snd (getMessages silent 1700000002000 inbox))
       = [GetMessages secmail [JStr (ascii ''hbnvcxzasdfg''), JStr (ascii ''1secmail.org'')]]
   \<and> lastRefresh (fst (snd (getMessages silent 1700000002000 inbox))) = 1700000002000
   \<and> getMessages silent 1700000002000 pinned_only
       = (Inr [], pinned_only\<lparr>lastRefresh := 1700000002000\<rparr>, [])"
proof -
  have a: "getMessages silent 1700000001999 inbox = (Inr [seen], inbox, [])"
    using getMessages_rate_limit [of 1700000001999 inbox silent secmail]
    by (simp add: inbox_def reading_def)
  have b: "lastRefresh (fst (snd (getMessages silent 1700000002000 inbox))) = 1700000002000"
    using getMessages_rate_limit [of 1700000002000 inbox silent secmail]
    by (simp add: inbox_def reading_def ascii_def)
  have b': "snd (snd (getMessages silent 1700000002000 inbox))
       = [GetMessages secmail [JStr (ascii ''hbnvcxzasdfg''), JStr (ascii ''1secmail.org'')]]"
    by (simp add: getMessages_def Let_def fetchAndNormalize_def listCall_def inbox_def reading_def
        CACHE_DURATION_def ascii_def silent_def normalizeMessages_def)
  have c: "getMessages silent 1700000002000 pinned_only
       = (Inr [], pinned_only\<lparr>lastRefresh := 1700000002000\<rparr>, [])"
    using getMessages_rate_limit [of 1700000002000 pinned_only silent secmail]
    by (simp add: pinned_only_def new_manager_def)
  show ?thesis using a b b' c by simp
qed

text \<open>
  C8, as stated, fails. The window is counted from \<open>lastRefresh\<close>, which only a call that
  passes the rate limit sets: after a fetch at 1700000000000 and a call at 1700000001500
  that is served from the stored sequence, a call at 1700000002500 comes 1000 ms after the
  previous call and still fetches. And with a provider pinned but no login, a call made
  after the window fetches nothing.
\<close>

theorem getMessages_window_from_last_fetch:
  "getMessages silent 1700000001500 inbox = (Inr [seen], inbox, [])
   \<and> (1700000002500 :: int) - 1700000001500 < CACHE_DURATION
   \<and> snd (snd (getMessages silent 1700000002500 (fst (snd (getMessages silent 1700000001500 inbox)))))
       = [GetMessages secmail [JStr (ascii ''hbnvcxzasdfg''), JStr (ascii ''1secmail.org'')]]
   \<and> currentProvider pinned_only = Some secmail
   \<and> snd (snd (getMessages silent 1700000002500 pinned_only)) = []"
proof -
  have a: "getMessages silent 1700000001500 inbox = (Inr [seen], inbox, [])"
    by (simp add: getMessages_def inbox_def reading_def CACHE_DURATION_def)
  have b: "snd (snd (getMessages silent 1700000002500 inbox))
       = [GetMessages secmail [JStr (ascii ''hbnvcxzasdfg''), JStr (ascii ''1secmail.org'')]]"
    by (simp add: getMessages_def Let_def fetchAndNormalize_def listCall_def inbox_def reading_def
        CACHE_DURATION_def ascii_def silent_def normalizeMessages_def)
  have c: "snd (snd (getMessages silent 1700000002500 pinned_only)) = []"
    by (simp add: getMessages_def Let_def pinned_only_def new_manager_def CACHE_DURATION_def)
  show ?thesis using a b c by (simp add: CACHE_DURATION_def pinned_only_def)
qed

section \<open>Reading one message\<close>

lemma getMessage_calls: "length (snd (snd (getMessage env messageId s))) \<le> 1"
proof -
  have "\<And>p. length (snd (messageCall env p s messageId)) \<le> 1"
    using messageCall_one [of env _ s messageId] by (metis length_Cons list.size(3) order_refl snd_conv One_nat_def)
  then show ?thesis
    by (auto simp: getMessage_def Let_def split: option.splits outcome.splits)
qed

lemma getMessage_returned_is_cached:
  "fst (getMessage env messageId s) = Inr (Some d) \<Longrightarrow>
   messageCache (fst (snd (getMessage env messageId s))) messageId = Some d"
  by (auto simp: getMessage_def Let_def split: option.splits outcome.splits if_splits)

lemma getMessage_hit:
  "messageCache s messageId = Some d \<Longrightarrow> getMessage env messageId s = (Inr (Some d), s, [])"
  by (simp add: getMessage_def)

lemma getMessage_null_keeps_state:
  "fst (getMessage env messageId s) = Inr None \<Longrightarrow> fst (snd (getMessage env messageId s)) = s"
  by (auto simp: getMessage_def Let_def split: option.splits outcome.splits if_splits)

text \<open>
  C9, as stated, fails. The bound of one provider fetch for two calls does not hold when
  the first call returns null: the provider answers null, nothing is cached, and the
  second call for the same id makes the same provider call again, two fetches in all.
\<close>

theorem getMessage_two_fetches_after_null:
  "fst (getMessage silent (JNum 1) mailbox) = Inr None
   \<and> snd (snd (getMessage silent (JNum 1) mailbox))
       = [GetMessage secmail [JStr (ascii ''hbnvcxzasdfg''), JStr (ascii ''1secmail.org''), JNum 1]]
   \<and> snd (snd (getMessage silent (JNum 1) (fst (snd (getMessage silent (JNum 1) mailbox)))))
       = [GetMessage secmail [JStr (ascii ''hbnvcxzasdfg''), JStr (ascii ''1secmail.org''), JNum 1]]
   \<and> length (snd (snd (getMessage silent (JNum 1) mailbox))
         @ snd (snd (getMessage silent (JNum 1) (fst (snd (getMessage silent (JNum 1) mailbox)))))) = 2"
proof -
  have a: "getMessage silent (JNum 1) mailbox
     = (Inr None, mailbox,
        [GetMessage secmail [JStr (ascii ''hbnvcxzasdfg''), JStr (ascii ''1secmail.org''), JNum 1]])"
    by (simp add: getMessage_def messageCall_def Let_def mailbox_def reading_def silent_def)
  show ?thesis by (simp add: a)
qed

text \<open>
  C9, amended. For every message id: if the first \<open>getMessage\<close> call returns a message,
  that message is stored in \<open>messageCache\<close> under the id, a second call for the same id
  returns it from the cache without any provider call, and the two calls make at most
  one provider fetch. If the first call returns null, nothing is cached under the id, the
  state is as before, and the second call does what a first call would, fetching again.
  No call throws.
\<close>

theorem getMessage_second_call_cached:
  "(fst (getMessage env1 messageId s) = Inr (Some d) \<longrightarrow>
      messageCache (fst (snd (getMessage env1 messageId s))) messageId = Some d
      \<and> getMessage env2 messageId (fst (snd (getMessage env1 messageId s)))
          = (Inr (Some d), fst (snd (getMessage env1 messageId s)), [])
      \<and> length (snd (snd (getMessage env1 messageId s))
                @ snd (snd (getMessage env2 messageId (fst (snd (getMessage env1 messageId s)))))) \<le> 1)
   \<and> (fst (getMessage env1 messageId s) = Inr None \<longrightarrow>
      messageCache (fst (snd (getMessage env1 messageId s))) messageId = None
      \<and> getMessage env2 messageId (fst (snd (getMessage env1 messageId s)))
          = getMessage env2 messageId s)
   \<and> (\<exists>r. fst (getMessage env1 messageId s) = Inr r)"
proof (intro conjI impI)
  let ?s1 = "fst (snd (getMessage env1 messageId s))"
  assume r: "fst (getMessage env1 messageId s) = Inr (Some d)"
  then show c: "messageCache ?s1 messageId = Some d"
    by (rule getMessage_returned_is_cached)
  then show h: "getMessage env2 messageId ?s1 = (Inr (Some d), ?s1, [])"
    by (rule getMessage_hit)
  show "length (snd (snd (getMessage env1 messageId s)) @ snd (snd (getMessage env2 messageId ?s1))) \<le> 1"
    using h getMessage_calls [of env1 messageId s] by simp
next
  assume n: "fst (getMessage env1 messageId s) = Inr None"
  then have s: "fst (snd (getMessage env1 messageId s)) = s"
    by (rule getMessage_null_keeps_state)
  show "messageCache (fst (snd (getMessage env1 messageId s))) messageId = None"
    using n s by (cases "messageCache s messageId") (auto simp: getMessage_def)
  show "getMessage env2 messageId (fst (snd (getMessage env1 messageId s))) = getMessage env2 messageId s"
    using s by simp
next
  show "\<exists>r. fst (getMessage env1 messageId s) = Inr r"
    by (auto simp: getMessage_def Let_def split: option.splits outcome.splits)
qed

theorem getMessage_second_call_cached_witness:
  "snd (snd (getMessage delivers (JNum 1) mailbox))
     = [GetMessage secmail [JStr (ascii ''hbnvcxzasdfg''), JStr (ascii ''1secmail.org''), JNum 1]]
   \<and> fst (getMessage delivers (JNum 1) mailbox) = Inr (Some (normalizeDetail letter (JNum 1)))
   \<and> fst (getMessage offline (JNum 1) (fst (snd (getMessage delivers (JNum 1) mailbox))))
       = Inr (Some (normalizeDetail letter (JNum 1)))
   \<and> snd (snd (getMessage offline (JNum 1) (fst (snd (getMessage delivers (JNum 1) mailbox))))) = []
   \<and> fst (getMessage offline (JNum 1) mailbox) = Inr None
   \<and> messageCache (fst (snd (getMessage offline (JNum 1) mailbox))) (JNum 1) = None
   \<and> getMessage delivers (JNum 1) (fst (snd (getMessage offline (JNum 1) mailbox)))
       = getMessage delivers (JNum 1) mailbox"
proof -
  have t: "truthy letter" by (simp add: letter_def)
  have a: "getMessage delivers (JNum 1) mailbox
     = (Inr (Some (normalizeDetail letter (JNum 1))),
        mailbox\<lparr>messageCache := (messageCache mailbox)(JNum 1 \<mapsto> normalizeDetail letter (JNum 1)),
                stats := (stats mailbox)\<lparr>messagesReceived := messagesReceived (stats mailbox) + 1\<rparr>\<rparr>,
        [GetMessage secmail [JStr (ascii ''hbnvcxzasdfg''), JStr (ascii ''1secmail.org''), JNum 1]])"
    using t by (simp add: getMessage_def messageCall_def Let_def mailbox_def reading_def delivers_def)
  have b: "fst (getMessage offline (JNum 1) mailbox) = Inr None"
    by (simp add: getMessage_def messageCall_def Let_def mailbox_def reading_def offline_def)
  have hit: "fst (getMessage offline (JNum 1) (fst (snd (getMessage delivers (JNum 1) mailbox))))
       = Inr (Some (normalizeDetail letter (JNum 1)))
     \<and> snd (snd (getMessage offline (JNum 1) (fst (snd (getMessage delivers (JNum 1) mailbox))))) = []"
    using getMessage_second_call_cached [of delivers "JNum 1" mailbox "normalizeDetail letter (JNum 1)" offline] a
    by simp
  have miss: "messageCache (fst (snd (getMessage offline (JNum 1) mailbox))) (JNum 1) = None
     \<and> getMessage delivers (JNum 1) (fst (snd (getMessage offline (JNum 1) mailbox)))
         = getMessage delivers (JNum 1) mailbox"
    using getMessage_second_call_cached [of offline "JNum 1" mailbox _ delivers] b
    by simp
  show ?thesis using a b hit miss by simp
qed

end
